theory Spec2Isabelle
  imports Complex_Main "HOL-Library.Log_Nat"
begin

section \<open>IEEE-754 binary64, the \<^verbatim>\<open>float64\<close> of the Go source\<close>

text \<open>
  Every monetary quantity of the service is a Go \<^verbatim>\<open>float64\<close>. A value is a finite
  rational, an infinity or a NaN; every arithmetic operation computes the exact result and
  rounds it to the nearest binary64 value, ties to even (the only rounding mode Go uses).
  Each operation is rounded on its own, as on amd64: no product is fused with the
  addition that follows it. The two zeros are identified: no operation of the service
  tells them apart (its only division is by the constant \<^verbatim>\<open>100.0\<close>).
\<close>

datatype float64 = Fin rat | PInf | NInf | NaN

definition ilog2 :: "rat \<Rightarrow> int" where
  \<comment> \<open>the binary exponent \<open>\<lfloor>log\<^sub>2 |x|\<rfloor>\<close> of a non-zero rational\<close>
  "ilog2 x =
     (let k = bitlen \<bar>fst (quotient_of x)\<bar> - bitlen (snd (quotient_of x))
      in if 2 powi k \<le> \<bar>x\<bar> then k else k - 1)"

definition round_half_even :: "rat \<Rightarrow> int" where
  "round_half_even x =
     (let f = \<lfloor>x\<rfloor>; d = x - of_int f
      in if d < 1 / 2 then f
         else if 1 / 2 < d then f + 1
         else if even f then f else f + 1)"

definition rne :: "rat \<Rightarrow> float64" where
  \<comment> \<open>round to nearest, ties to even: 53 significant bits, exponents from -1022 to 1023,
      gradual underflow below, overflow to an infinity above\<close>
  "rne x =
     (if x = 0 then Fin 0
      else
        let e = max (ilog2 x) (- 1022);
            q = 2 powi (e - 52);
            r = of_int (round_half_even (x / q)) * q
        in if 2 ^ 1024 \<le> \<bar>r\<bar> then (if 0 < x then PInf else NInf) else Fin r)"

definition is_float64 :: "float64 \<Rightarrow> bool" where
  \<comment> \<open>the rational is one a binary64 holds exactly\<close>
  "is_float64 v = (case v of Fin x \<Rightarrow> rne x = Fin x | _ \<Rightarrow> True)"

fun fneg :: "float64 \<Rightarrow> float64" where
  "fneg (Fin a) = Fin (- a)"
| "fneg PInf = NInf"
| "fneg NInf = PInf"
| "fneg NaN = NaN"

fun fadd :: "float64 \<Rightarrow> float64 \<Rightarrow> float64" where
  "fadd NaN _ = NaN"
| "fadd _ NaN = NaN"
| "fadd (Fin a) (Fin b) = rne (a + b)"
| "fadd PInf NInf = NaN"
| "fadd NInf PInf = NaN"
| "fadd PInf _ = PInf"
| "fadd _ PInf = PInf"
| "fadd NInf _ = NInf"
| "fadd _ NInf = NInf"

definition fsub :: "float64 \<Rightarrow> float64 \<Rightarrow> float64" where
  "fsub a b = fadd a (fneg b)"

fun fsign :: "float64 \<Rightarrow> int" where
  \<comment> \<open>the sign of a value that is not a NaN\<close>
  "fsign (Fin a) = (if a < 0 then - 1 else if a = 0 then 0 else 1)"
| "fsign PInf = 1"
| "fsign NInf = - 1"
| "fsign NaN = 0"

fun fmul :: "float64 \<Rightarrow> float64 \<Rightarrow> float64" where
  "fmul NaN _ = NaN"
| "fmul _ NaN = NaN"
| "fmul (Fin a) (Fin b) = rne (a * b)"
| "fmul a b =
     (let s = fsign a * fsign b
      in if s = 0 then NaN else if 0 < s then PInf else NInf)"

fun fdiv :: "float64 \<Rightarrow> float64 \<Rightarrow> float64" where
  "fdiv NaN _ = NaN"
| "fdiv _ NaN = NaN"
| "fdiv (Fin a) (Fin b) =
     (if b = 0 then (if a = 0 then NaN else if 0 < a then PInf else NInf)
      else rne (a / b))"
| "fdiv (Fin a) _ = Fin 0"
| "fdiv a (Fin b) =
     (let s = fsign a * (if b < 0 then - 1 else 1)
      in if 0 < s then PInf else NInf)"
| "fdiv _ _ = NaN"

fun flt :: "float64 \<Rightarrow> float64 \<Rightarrow> bool" where
  \<comment> \<open>Go's \<^verbatim>\<open><\<close>: false whenever an operand is a NaN\<close>
  "flt NaN _ = False"
| "flt _ NaN = False"
| "flt (Fin a) (Fin b) = (a < b)"
| "flt NInf NInf = False"
| "flt NInf _ = True"
| "flt _ NInf = False"
| "flt PInf _ = False"
| "flt _ PInf = True"

fun feq :: "float64 \<Rightarrow> float64 \<Rightarrow> bool" where
  \<comment> \<open>Go's \<^verbatim>\<open>==\<close>: a NaN equals nothing, itself included\<close>
  "feq NaN _ = False"
| "feq _ NaN = False"
| "feq a b = (a = b)"

fun math_Abs :: "float64 \<Rightarrow> float64" where
  "math_Abs (Fin a) = Fin \<bar>a\<bar>"
| "math_Abs PInf = PInf"
| "math_Abs NInf = PInf"
| "math_Abs NaN = NaN"

definition round_half_away :: "rat \<Rightarrow> int" where
  \<comment> \<open>the nearest integer, halves away from zero\<close>
  "round_half_away x = (if 0 \<le> x then \<lfloor>x + 1 / 2\<rfloor> else - \<lfloor>- x + 1 / 2\<rfloor>)"

fun math_Round :: "float64 \<Rightarrow> float64" where
  \<comment> \<open>Go's \<^verbatim>\<open>math.Round\<close>: exact, since the nearest integer of a binary64 is a binary64\<close>
  "math_Round (Fin a) = Fin (of_int (round_half_away a))"
| "math_Round v = v"


definition fle :: "float64 \<Rightarrow> float64 \<Rightarrow> bool" where
  \<comment> \<open>Go's \<^verbatim>\<open><=\<close>\<close>
  "fle a b = (flt a b \<or> feq a b)"

section \<open>The data model (package models)\<close>

type_synonym time = int
  \<comment> \<open>an instant, counted from Go's zero \<^verbatim>\<open>time.Time\<close>\<close>

definition IsZero :: "time \<Rightarrow> bool" where
  "IsZero t = (t = 0)"

datatype description =
  \<comment> \<open>the \<^verbatim>\<open>fmt.Sprintf\<close> calls of createLedgerEntries, kept as template and arguments\<close>
    StockRewardDesc string float64 float64  \<comment> \<open>\<^verbatim>\<open>"Stock reward: %s x %.6f @ %.2f INR"\<close>\<close>
  | RewardIncomeDesc string                 \<comment> \<open>\<^verbatim>\<open>"Reward income for event %s"\<close>\<close>
  | BrokerageDesc string                    \<comment> \<open>\<^verbatim>\<open>"Brokerage fee for %s"\<close>\<close>
  | TransactionFeeDesc string               \<comment> \<open>\<^verbatim>\<open>"Transaction fee for %s"\<close>\<close>
  | StockAdjustmentDesc string float64 float64 \<comment> \<open>\<^verbatim>\<open>"Stock adjustment: %s x %.6f @ %.2f INR"\<close>\<close>
  | AdjustmentDesc string                   \<comment> \<open>\<^verbatim>\<open>"Stock adjustment for event %s"\<close>\<close>

text \<open>
  \<^verbatim>\<open>models.Reward\<close>, \<^verbatim>\<open>models.LedgerEntry\<close> and \<^verbatim>\<open>models.RewardRequest\<close> (the idempotency
  record). Several structs share field names, so each field carries its struct's prefix.
  The columns the database fills in by itself (\<^verbatim>\<open>created_at\<close>, \<^verbatim>\<open>updated_at\<close>, the id of
  a ledger entry or of an idempotency record) are read by no code path modelled here and
  are left out.
\<close>

record Reward =
  r_ID :: int
  r_UserID :: string
  r_StockSymbol :: string
  r_Quantity :: float64
  r_EventType :: string
  r_EventID :: string
  r_EventTimestamp :: time
  r_StockPrice :: float64
  r_TotalValueINR :: float64
  r_BrokerageFee :: float64
  r_TransactionFee :: float64
  r_NetValueINR :: float64
  r_Status :: string
  r_Notes :: "string option"

record LedgerEntry =
  l_RewardID :: int
  l_UserID :: string
  l_EntryType :: string
  l_AccountType :: string
  l_Amount :: float64
  l_Currency :: string
  l_Description :: "description option"
  l_ReferenceID :: "string option"

section \<open>Requests, responses and their JSON payloads (package services)\<close>

record RewardRequest =
  req_UserID :: string
  req_StockSymbol :: string
  req_Quantity :: float64
  req_EventID :: string
  req_EventTimestamp :: time
  req_EventType :: string
  req_Notes :: string

record RewardResponse =
  resp_RewardID :: int
  resp_UserID :: string
  resp_StockSymbol :: string
  resp_Quantity :: float64
  resp_StockPrice :: float64
  resp_TotalValueINR :: float64
  resp_BrokerageFee :: float64
  resp_TransactionFee :: float64
  resp_NetValueINR :: float64
  resp_EventID :: string
  resp_Status :: string
  resp_Message :: string
  resp_Timestamp :: time

text \<open>
  The text stored in the \<^verbatim>\<open>response_payload\<close> column. \<^verbatim>\<open>json.Marshal\<close> of a response
  and \<^verbatim>\<open>json.Unmarshal\<close> of that text give the response back, so an encoded response is
  kept as the response itself; \<^verbatim>\<open>json.Marshal\<close> fails on an infinity or a NaN, and
  ProcessReward drops that error and goes on with the empty string, which is not JSON.
\<close>

datatype payload = Encoded RewardResponse | Malformed

fun is_finite :: "float64 \<Rightarrow> bool" where
  "is_finite (Fin _) = True"
| "is_finite _ = False"

definition json_Marshal :: "RewardResponse \<Rightarrow> payload" where
  "json_Marshal response =
     (if is_finite (resp_Quantity response) \<and> is_finite (resp_StockPrice response)
         \<and> is_finite (resp_TotalValueINR response) \<and> is_finite (resp_BrokerageFee response)
         \<and> is_finite (resp_TransactionFee response) \<and> is_finite (resp_NetValueINR response)
      then Encoded response else Malformed)"

fun json_Unmarshal :: "payload \<Rightarrow> RewardResponse option" where
  "json_Unmarshal (Encoded response) = Some response"
| "json_Unmarshal Malformed = None"

record IdempotencyRecord =
  ir_EventID :: string
  ir_UserID :: string
  ir_StockSymbol :: string
  ir_Quantity :: float64
  ir_RequestPayload :: RewardRequest
  ir_ResponsePayload :: "payload option"
  ir_Status :: string
  ir_ProcessedAt :: "time option"

section \<open>The database and the repositories (package repository)\<close>

text \<open>
  The tables ProcessReward reads and writes. \<^verbatim>\<open>reward_requests\<close> has a unique index on
  \<^verbatim>\<open>event_id\<close>, so it is a map from event ids.
\<close>

record db =
  users :: "string set"
  reward_requests :: "string \<rightharpoonup> IdempotencyRecord"
  rewards :: "Reward list"
  ledger_entries :: "LedgerEntry list"

text \<open>
  What the world outside decides during one call of ProcessReward: whether each database
  statement goes through, the id the \<^verbatim>\<open>rewards\<close> sequence hands out, the answer of
  \<^verbatim>\<open>PriceService.GetLatestPrice\<close> (the latest stored price, or a freshly generated one, or
  an error; the \<^verbatim>\<open>stock_prices\<close> table it works on is not part of \<open>db\<close>), and the clock.
\<close>

record env =
  lookup_ok :: bool
  users_ok :: bool
  reserve_ok :: bool
  latest_price :: "float64 option"
  reward_insert :: "int option"
  ledger_ok :: bool
  mark_ok :: bool
  now_event :: time
  now_response :: time
  now_processed :: time

definition GetByEventID :: "bool \<Rightarrow> string \<Rightarrow> db \<Rightarrow> IdempotencyRecord option" where
  \<comment> \<open>rewardRequestRepository.GetByEventID: \<open>None\<close> is the error return, for a missing row
      as for a failed query\<close>
  "GetByEventID ok eventID d = (if ok then reward_requests d eventID else None)"

definition Exists :: "bool \<Rightarrow> string \<Rightarrow> db \<Rightarrow> unit + bool" where
  \<comment> \<open>userRepo.Exists\<close>
  "Exists ok userID d = (if ok then Inr (userID \<in> users d) else Inl ())"

definition Create :: "bool \<Rightarrow> IdempotencyRecord \<Rightarrow> db \<Rightarrow> db option" where
  \<comment> \<open>rewardRequestRepository.Create: the INSERT fails on the unique index\<close>
  "Create ok request d =
     (if ok \<and> reward_requests d (ir_EventID request) = None
      then Some (d\<lparr>reward_requests := (reward_requests d)(ir_EventID request \<mapsto> request)\<rparr>)
      else None)"

definition MarkProcessed :: "bool \<Rightarrow> time \<Rightarrow> string \<Rightarrow> payload \<Rightarrow> db \<Rightarrow> bool \<times> db" where
  \<comment> \<open>rewardRequestRepository.MarkProcessed: an UPDATE by event id, whatever the status was;
      no row to update is no error; the JSONB column refuses text that is not JSON\<close>
  "MarkProcessed ok now eventID responsePayload d =
     (if ok \<and> responsePayload \<noteq> Malformed
      then (True,
            case reward_requests d eventID of
              None \<Rightarrow> d
            | Some request \<Rightarrow>
                d\<lparr>reward_requests := (reward_requests d)(eventID \<mapsto>
                     request\<lparr>ir_ResponsePayload := Some responsePayload,
                             ir_Status := ''COMPLETED'',
                             ir_ProcessedAt := Some now\<rparr>)\<rparr>)
      else (False, d))"

definition RewardCreate :: "int option \<Rightarrow> Reward \<Rightarrow> db \<Rightarrow> (Reward \<times> db) option" where
  \<comment> \<open>rewardRepository.Create: the row gets the id the sequence hands out\<close>
  "RewardCreate outcome reward d =
     (case outcome of
        None \<Rightarrow> None
      | Some i \<Rightarrow>
          let created = reward\<lparr>r_ID := i\<rparr>
          in Some (created, d\<lparr>rewards := rewards d @ [created]\<rparr>))"

definition BulkCreate :: "bool \<Rightarrow> LedgerEntry list \<Rightarrow> db \<Rightarrow> bool \<times> db" where
  \<comment> \<open>ledgerRepository.BulkCreate: nothing to do for no entries; otherwise one pgx batch,
      which the server runs as one implicit transaction\<close>
  "BulkCreate ok entries d =
     (if entries = [] then (True, d)
      else if ok then (True, d\<lparr>ledger_entries := ledger_entries d @ entries\<rparr>)
      else (False, d))"

section \<open>The reward service (package services)\<close>

record RewardService =
  brokeragePercent :: float64
  feePercent :: float64

definition NewRewardService :: "float64 option \<Rightarrow> float64 option \<Rightarrow> RewardService" where
  \<comment> \<open>the arguments are the environment variables \<^verbatim>\<open>BROKERAGE_PERCENT\<close> and
      \<^verbatim>\<open>TRANSACTION_FEE_PERCENT\<close> where set and parsed; the defaults are the constants
      \<^verbatim>\<open>0.1\<close> and \<^verbatim>\<open>0.05\<close> as binary64 values\<close>
  "NewRewardService bp fp =
     \<lparr>brokeragePercent = (case bp of Some val \<Rightarrow> val | None \<Rightarrow> rne (1 / 10)),
      feePercent = (case fp of Some val \<Rightarrow> val | None \<Rightarrow> rne (5 / 100))\<rparr>"

datatype error =
    ValidationFailed string   \<comment> \<open>\<^verbatim>\<open>"validation failed: %w"\<close>\<close>
  | AlreadyProcessing         \<comment> \<open>\<^verbatim>\<open>"request already processing or failed"\<close>\<close>
  | UserCheckFailed           \<comment> \<open>\<^verbatim>\<open>"failed to check user existence: %w"\<close>\<close>
  | UserNotFound string       \<comment> \<open>\<^verbatim>\<open>"user %s does not exist"\<close>\<close>
  | IdempotencyCreateFailed   \<comment> \<open>\<^verbatim>\<open>"failed to create idempotency record: %w"\<close>\<close>
  | PriceFailed               \<comment> \<open>\<^verbatim>\<open>"failed to get stock price: %w"\<close>\<close>
  | RewardCreateFailed        \<comment> \<open>\<^verbatim>\<open>"failed to create reward: %w"\<close>\<close>

definition validateRequest :: "RewardRequest \<Rightarrow> string option" where
  \<comment> \<open>\<open>None\<close> is the nil error\<close>
  "validateRequest req =
     (if req_UserID req = [] then Some ''user_id is required''
      else if req_StockSymbol req = [] then Some ''stock_symbol is required''
      else if feq (req_Quantity req) (Fin 0) then Some ''quantity cannot be zero''
      else if req_EventID req = [] then Some ''event_id is required''
      else None)"

definition roundToTwoDecimals :: "float64 \<Rightarrow> float64" where
  "roundToTwoDecimals val = fdiv (math_Round (fmul val (Fin 100))) (Fin 100)"

definition calculateBrokerage :: "RewardService \<Rightarrow> float64 \<Rightarrow> float64" where
  "calculateBrokerage rs totalValue =
     (let fee = fmul (math_Abs totalValue) (fdiv (brokeragePercent rs) (Fin 100))
      in roundToTwoDecimals fee)"

definition calculateTransactionFee :: "RewardService \<Rightarrow> float64 \<Rightarrow> float64" where
  "calculateTransactionFee rs totalValue =
     (let fee = fmul (math_Abs totalValue) (fdiv (feePercent rs) (Fin 100))
      in roundToTwoDecimals fee)"

definition entries_of :: "Reward \<Rightarrow> LedgerEntry list" where
  \<comment> \<open>the slice \<^verbatim>\<open>entries\<close> that createLedgerEntries builds before it calls BulkCreate\<close>
  "entries_of reward =
     (if flt (Fin 0) (r_Quantity reward) then
        [\<lparr>l_RewardID = r_ID reward, l_UserID = r_UserID reward,
          l_EntryType = ''DEBIT'', l_AccountType = ''STOCK_ASSET'',
          l_Amount = r_TotalValueINR reward, l_Currency = ''INR'',
          l_Description = Some (StockRewardDesc (r_StockSymbol reward) (r_Quantity reward)
                                  (r_StockPrice reward)),
          l_ReferenceID = Some (r_EventID reward)\<rparr>,
         \<lparr>l_RewardID = r_ID reward, l_UserID = r_UserID reward,
          l_EntryType = ''CREDIT'', l_AccountType = ''REWARD_INCOME'',
          l_Amount = r_TotalValueINR reward, l_Currency = ''INR'',
          l_Description = Some (RewardIncomeDesc (r_EventID reward)),
          l_ReferenceID = Some (r_EventID reward)\<rparr>]
        @ (if flt (Fin 0) (r_BrokerageFee reward) then
             [\<lparr>l_RewardID = r_ID reward, l_UserID = r_UserID reward,
               l_EntryType = ''DEBIT'', l_AccountType = ''BROKERAGE_EXPENSE'',
               l_Amount = r_BrokerageFee reward, l_Currency = ''INR'',
               l_Description = Some (BrokerageDesc (r_EventID reward)),
               l_ReferenceID = Some (r_EventID reward)\<rparr>,
              \<lparr>l_RewardID = r_ID reward, l_UserID = r_UserID reward,
               l_EntryType = ''CREDIT'', l_AccountType = ''CASH'',
               l_Amount = r_BrokerageFee reward, l_Currency = ''INR'',
               l_Description = Some (BrokerageDesc (r_EventID reward)),
               l_ReferenceID = Some (r_EventID reward)\<rparr>]
           else [])
        @ (if flt (Fin 0) (r_TransactionFee reward) then
             [\<lparr>l_RewardID = r_ID reward, l_UserID = r_UserID reward,
               l_EntryType = ''DEBIT'', l_AccountType = ''FEE_EXPENSE'',
               l_Amount = r_TransactionFee reward, l_Currency = ''INR'',
               l_Description = Some (TransactionFeeDesc (r_EventID reward)),
               l_ReferenceID = Some (r_EventID reward)\<rparr>,
              \<lparr>l_RewardID = r_ID reward, l_UserID = r_UserID reward,
               l_EntryType = ''CREDIT'', l_AccountType = ''CASH'',
               l_Amount = r_TransactionFee reward, l_Currency = ''INR'',
               l_Description = Some (TransactionFeeDesc (r_EventID reward)),
               l_ReferenceID = Some (r_EventID reward)\<rparr>]
           else [])
      else
        [\<lparr>l_RewardID = r_ID reward, l_UserID = r_UserID reward,
          l_EntryType = ''CREDIT'', l_AccountType = ''STOCK_ASSET'',
          l_Amount = math_Abs (r_TotalValueINR reward), l_Currency = ''INR'',
          l_Description = Some (StockAdjustmentDesc (r_StockSymbol reward) (r_Quantity reward)
                                  (r_StockPrice reward)),
          l_ReferenceID = Some (r_EventID reward)\<rparr>,
         \<lparr>l_RewardID = r_ID reward, l_UserID = r_UserID reward,
          l_EntryType = ''DEBIT'', l_AccountType = ''ADJUSTMENT_EXPENSE'',
          l_Amount = math_Abs (r_TotalValueINR reward), l_Currency = ''INR'',
          l_Description = Some (AdjustmentDesc (r_EventID reward)),
          l_ReferenceID = Some (r_EventID reward)\<rparr>])"

definition createLedgerEntries :: "bool \<Rightarrow> Reward \<Rightarrow> db \<Rightarrow> bool \<times> db" where
  "createLedgerEntries ok reward d = BulkCreate ok (entries_of reward) d"

definition new_reward :: "RewardService \<Rightarrow> RewardRequest \<Rightarrow> float64 \<Rightarrow> time \<Rightarrow> Reward" where
  \<comment> \<open>steps 6 and 7 of ProcessReward up to the insert: the values computed from the
      request and the price, and the \<^verbatim>\<open>models.Reward\<close> literal (its id still the zero value)\<close>
  "new_reward rs req stockPrice now =
     (let totalValueINR = fmul (req_Quantity req) stockPrice;
          brokerageFee = calculateBrokerage rs totalValueINR;
          transactionFee = calculateTransactionFee rs totalValueINR;
          netValueINR =
            (if flt (req_Quantity req) (Fin 0)
             then fadd (fadd totalValueINR brokerageFee) transactionFee
             else fsub (fsub totalValueINR brokerageFee) transactionFee);
          eventTimestamp =
            (if IsZero (req_EventTimestamp req) then now else req_EventTimestamp req);
          eventType = (if req_EventType req = [] then ''REWARD'' else req_EventType req);
          notes = (if req_Notes req \<noteq> [] then Some (req_Notes req) else None)
      in \<lparr>r_ID = 0, r_UserID = req_UserID req, r_StockSymbol = req_StockSymbol req,
          r_Quantity = req_Quantity req, r_EventType = eventType,
          r_EventID = req_EventID req, r_EventTimestamp = eventTimestamp,
          r_StockPrice = stockPrice, r_TotalValueINR = totalValueINR,
          r_BrokerageFee = brokerageFee, r_TransactionFee = transactionFee,
          r_NetValueINR = netValueINR, r_Status = ''COMPLETED'', r_Notes = notes\<rparr>)"

definition response_of :: "Reward \<Rightarrow> time \<Rightarrow> RewardResponse" where
  \<comment> \<open>the \<^verbatim>\<open>RewardResponse\<close> literal of step 9\<close>
  "response_of createdReward now =
     \<lparr>resp_RewardID = r_ID createdReward, resp_UserID = r_UserID createdReward,
      resp_StockSymbol = r_StockSymbol createdReward, resp_Quantity = r_Quantity createdReward,
      resp_StockPrice = r_StockPrice createdReward,
      resp_TotalValueINR = r_TotalValueINR createdReward,
      resp_BrokerageFee = r_BrokerageFee createdReward,
      resp_TransactionFee = r_TransactionFee createdReward,
      resp_NetValueINR = r_NetValueINR createdReward, resp_EventID = r_EventID createdReward,
      resp_Status = ''SUCCESS'', resp_Message = ''Reward processed successfully'',
      resp_Timestamp = now\<rparr>"

definition ProcessReward ::
  "RewardService \<Rightarrow> env \<Rightarrow> RewardRequest \<Rightarrow> db \<Rightarrow> (error + RewardResponse) \<times> db" where
  "ProcessReward rs env req d =
     (case validateRequest req of
        Some msg \<Rightarrow> (Inl (ValidationFailed msg), d)
      | None \<Rightarrow>
     (case GetByEventID (lookup_ok env) (req_EventID req) d of
        Some existingRequest \<Rightarrow>
          (case (if ir_Status existingRequest = ''COMPLETED''
                 then ir_ResponsePayload existingRequest else None) of
             Some responsePayload \<Rightarrow>
               (case json_Unmarshal responsePayload of
                  Some response \<Rightarrow>
                    (Inr (response\<lparr>resp_Message :=
                            ''Duplicate request - returning previous result''\<rparr>), d)
                | None \<Rightarrow> (Inl AlreadyProcessing, d))
           | None \<Rightarrow> (Inl AlreadyProcessing, d))
      | None \<Rightarrow>
     (case Exists (users_ok env) (req_UserID req) d of
        Inl _ \<Rightarrow> (Inl UserCheckFailed, d)
      | Inr userExists \<Rightarrow>
     (if \<not> userExists then (Inl (UserNotFound (req_UserID req)), d)
      else
     (case Create (reserve_ok env)
             \<lparr>ir_EventID = req_EventID req, ir_UserID = req_UserID req,
              ir_StockSymbol = req_StockSymbol req, ir_Quantity = req_Quantity req,
              ir_RequestPayload = req, ir_ResponsePayload = None,
              ir_Status = ''PROCESSING'', ir_ProcessedAt = None\<rparr> d of
        None \<Rightarrow> (Inl IdempotencyCreateFailed, d)
      | Some d1 \<Rightarrow>
     (case latest_price env of
        None \<Rightarrow> (Inl PriceFailed, d1)
      | Some stockPrice \<Rightarrow>
     (case RewardCreate (reward_insert env)
             (new_reward rs req stockPrice (now_event env)) d1 of
        None \<Rightarrow> (Inl RewardCreateFailed, d1)
      | Some (createdReward, d2) \<Rightarrow>
          let d3 = snd (createLedgerEntries (ledger_ok env) createdReward d2);
              response = response_of createdReward (now_response env);
              d4 = snd (MarkProcessed (mark_ok env) (now_processed env) (req_EventID req)
                          (json_Marshal response) d3)
          in (Inr response, d4))))))))"


definition sum_amounts :: "string \<Rightarrow> LedgerEntry list \<Rightarrow> float64" where
  \<comment> \<open>the binary64 sum, in ledger order, of the amounts on one side\<close>
  "sum_amounts side entries =
     foldl fadd (Fin 0) (map l_Amount (filter (\<lambda>entry. l_EntryType entry = side) entries))"

section \<open>The fee rule in the words of the specification\<close>




section \<open>Sample data\<close>

text \<open>
  The seed data of the schema (user \<^verbatim>\<open>USR001\<close>, \<^verbatim>\<open>AAPL\<close> at 175.50) with the service at
  its default rates, a reward of 10.5 shares, and the adjustment of -5 shares at 100.00.
\<close>

definition default_service :: RewardService where
  "default_service = NewRewardService None None"

definition sample_db :: db where
  "sample_db = \<lparr>users = {''USR001''}, reward_requests = Map.empty, rewards = [],
                 ledger_entries = []\<rparr>"

definition sample_env :: env where
  "sample_env = \<lparr>lookup_ok = True, users_ok = True, reserve_ok = True,
                  latest_price = Some (Fin (351 / 2)), reward_insert = Some 1,
                  ledger_ok = True, mark_ok = True,
                  now_event = 1000, now_response = 1001, now_processed = 1002\<rparr>"

definition sample_request :: RewardRequest where
  "sample_request = \<lparr>req_UserID = ''USR001'', req_StockSymbol = ''AAPL'',
                      req_Quantity = Fin (21 / 2), req_EventID = ''EVT-001'',
                      req_EventTimestamp = 0, req_EventType = [], req_Notes = []\<rparr>"

definition adjustment_request :: RewardRequest where
  "adjustment_request = \<lparr>req_UserID = ''USR001'', req_StockSymbol = ''AAPL'',
                          req_Quantity = Fin (- 5), req_EventID = ''EVT-ADJ-001'',
                          req_EventTimestamp = 0, req_EventType = ''ADJUSTMENT'',
                          req_Notes = ''Correction for duplicate reward''\<rparr>"

definition adjustment_env :: env where
  "adjustment_env = sample_env\<lparr>latest_price := Some (Fin 100), reward_insert := Some 2\<rparr>"

definition sample_reward :: Reward where
  \<open>sample_reward = (new_reward default_service sample_request (Fin (351 / 2)) 1000)\<lparr>r_ID := 1\<rparr>\<close>

definition adjustment_reward :: Reward where
  \<open>adjustment_reward = (new_reward default_service adjustment_request (Fin 100) 1000)\<lparr>r_ID := 2\<rparr>\<close>

definition completed_db :: db where
  \<comment> \<open>the database after \<open>sample_request\<close> went through\<close>
  "completed_db = snd (ProcessReward default_service sample_env sample_request sample_db)"


section \<open>Facts about binary64 rounding\<close>

lemma pow2_int_mono: "a \<le> b \<Longrightarrow> (2::rat) powi a \<le> 2 powi b"
  by (rule power_int_increasing) simp_all

lemma ilog2_bounds:
  assumes "x \<noteq> 0"
  shows "2 powi (ilog2 x) \<le> \<bar>x\<bar> \<and> \<bar>x\<bar> < 2 powi (ilog2 x + 1)"
proof -
  obtain n d where nd: "quotient_of x = (n, d)" by (cases "quotient_of x")
  then have d: "0 < d" and x: "x = of_int n / of_int d"
    using quotient_of_denom_pos quotient_of_div by auto
  from x assms have n: "n \<noteq> 0" by auto
  define a where "a = \<bar>n\<bar>"
  have a: "0 < a" using n by (simp add: a_def)
  have ax: "\<bar>x\<bar> = of_int a / of_int d" using d by (simp add: x a_def)
  define k where "k = bitlen a - bitlen d"
  have ba: "1 \<le> bitlen a" and bd: "1 \<le> bitlen d"
    using a d by (auto simp: bitlen_alt_def)
  have bnd: "(2::rat) powi (bitlen m - 1) \<le> of_int m \<and> of_int m < (2::rat) powi (bitlen m)"
    if "0 < m" for m
  proof -
    from that have b: "1 \<le> bitlen m" by (auto simp: bitlen_alt_def)
    from bitlen_bounds[OF that] have "(2::int) ^ nat (bitlen m - 1) \<le> m" "m < 2 ^ nat (bitlen m)"
      by auto
    then have "rat_of_int (2 ^ nat (bitlen m - 1)) \<le> of_int m" "rat_of_int m < of_int (2 ^ nat (bitlen m))"
      by (simp_all only: of_int_le_iff of_int_less_iff)
    then show ?thesis using b by (simp add: power_int_def)
  qed
  have dpos: "(0::rat) < of_int d" using d by simp
  have upper: "\<bar>x\<bar> < 2 powi (k + 1)"
  proof -
    have "of_int a < (2::rat) powi (bitlen a)" using bnd[OF a] by simp
    moreover have "(2::rat) powi (bitlen d - 1) \<le> of_int d" using bnd[OF d] by simp
    ultimately have "of_int a * 2 powi (bitlen d - 1) < (2::rat) powi (bitlen a) * of_int d"
      using a by (intro mult_less_le_imp_less) auto
    then have "of_int a / of_int d < (2::rat) powi (bitlen a) / 2 powi (bitlen d - 1)"
      using dpos by (simp add: field_simps)
    also have "\<dots> = 2 powi (bitlen a - (bitlen d - 1))"
      by (simp add: power_int_diff)
    also have "bitlen a - (bitlen d - 1) = k + 1"
      by (simp add: k_def)
    finally show ?thesis by (simp add: ax)
  qed
  have lower: "2 powi (k - 1) \<le> \<bar>x\<bar>"
  proof -
    have "(2::rat) powi (bitlen a - 1) \<le> of_int a" using bnd[OF a] by simp
    moreover have "of_int d < (2::rat) powi (bitlen d)" using bnd[OF d] by simp
    ultimately have "(2::rat) powi (bitlen a - 1) * of_int d \<le> of_int a * 2 powi (bitlen d)"
      using a d by (intro mult_mono) auto
    then have "(2::rat) powi (bitlen a - 1) / 2 powi (bitlen d) \<le> of_int a / of_int d"
      using dpos by (simp add: field_simps)
    moreover have "(2::rat) powi (bitlen a - 1) / 2 powi (bitlen d) = 2 powi (bitlen a - 1 - bitlen d)"
      by (simp add: power_int_diff)
    moreover have "bitlen a - 1 - bitlen d = k - 1"
      by (simp add: k_def)
    ultimately show ?thesis by (simp add: ax)
  qed
  have il: "ilog2 x = (if 2 powi k \<le> \<bar>x\<bar> then k else k - 1)"
    by (simp add: ilog2_def nd a_def k_def Let_def)
  show ?thesis
  proof (cases "2 powi k \<le> \<bar>x\<bar>")
    case True
    then show ?thesis using upper by (simp add: il)
  next
    case False
    then show ?thesis using lower by (simp add: il)
  qed
qed

lemma ilog2_unique:
  assumes "2 powi e \<le> \<bar>x\<bar>" "\<bar>x\<bar> < 2 powi (e + 1)"
  shows "ilog2 x = e"
proof -
  have pos: "(0::rat) < 2 powi e" by simp
  have "x \<noteq> 0"
  proof
    assume "x = 0"
    with assms(1) have "(2::rat) powi e \<le> 0" by simp
    with pos show False by linarith
  qed
  from ilog2_bounds[OF this] have b: "2 powi (ilog2 x) \<le> \<bar>x\<bar>" "\<bar>x\<bar> < 2 powi (ilog2 x + 1)"
    by auto
  have "\<not> ilog2 x < e"
  proof
    assume "ilog2 x < e"
    then have "(2::rat) powi (ilog2 x + 1) \<le> 2 powi e" by (intro pow2_int_mono) simp
    with b(2) assms(1) show False by simp
  qed
  moreover have "\<not> e < ilog2 x"
  proof
    assume "e < ilog2 x"
    then have "(2::rat) powi (e + 1) \<le> 2 powi (ilog2 x)" by (intro pow2_int_mono) simp
    with b(1) assms(2) show False by simp
  qed
  ultimately show ?thesis by simp
qed

lemma round_half_even_error: "\<bar>of_int (round_half_even x) - x\<bar> \<le> 1 / 2"
proof -
  have "of_int \<lfloor>x\<rfloor> \<le> x" "x < of_int \<lfloor>x\<rfloor> + 1" by linarith+
  then show ?thesis by (auto simp: round_half_even_def Let_def)
qed

lemma round_half_even_eqI:
  assumes "\<bar>x - of_int m\<bar> < 1 / 2"
  shows "round_half_even x = m"
proof -
  have "\<bar>of_int (round_half_even x) - x\<bar> \<le> 1 / 2" by (rule round_half_even_error)
  with assms have "\<bar>rat_of_int (round_half_even x) - of_int m\<bar> < 1" by linarith
  then have "\<bar>rat_of_int (round_half_even x - m)\<bar> < 1" by simp
  then have "\<bar>round_half_even x - m\<bar> < 1" by (simp only: of_int_abs[symmetric] of_int_less_1_iff)
  then show ?thesis by simp
qed

lemma round_half_even_sign:
  "0 \<le> x \<Longrightarrow> 0 \<le> round_half_even x" "x \<le> 0 \<Longrightarrow> round_half_even x \<le> 0"
proof -
  have fl: "of_int \<lfloor>x\<rfloor> \<le> x" "x < of_int \<lfloor>x\<rfloor> + 1" by linarith+
  show "0 \<le> x \<Longrightarrow> 0 \<le> round_half_even x"
    by (auto simp: round_half_even_def Let_def)
  show "x \<le> 0 \<Longrightarrow> round_half_even x \<le> 0"
  proof -
    assume x: "x \<le> 0"
    show ?thesis
    proof (cases "x = 0")
      case True
      then show ?thesis by (simp add: round_half_even_def)
    next
      case False
      with x have "x < 0" by simp
      then have "\<lfloor>x\<rfloor> \<le> - 1" by (simp add: floor_le_iff)
      moreover have "x - of_int \<lfloor>x\<rfloor> < 1" using fl by linarith
      ultimately show ?thesis using \<open>x < 0\<close> fl
        by (auto simp: round_half_even_def Let_def)
    qed
  qed
qed

lemma rne_unfold:
  assumes "x \<noteq> 0"
  defines "q \<equiv> 2 powi (max (ilog2 x) (- 1022) - 52)"
  defines "r \<equiv> of_int (round_half_even (x / q)) * q"
  shows "rne x = (if 2 ^ 1024 \<le> \<bar>r\<bar> then (if 0 < x then PInf else NInf) else Fin r)"
    and "0 < q" and "\<bar>r - x\<bar> \<le> q / 2"
    and "0 \<le> x \<Longrightarrow> 0 \<le> r" and "x \<le> 0 \<Longrightarrow> r \<le> 0"
proof -
  show q: "0 < q" by (simp add: q_def)
  show "rne x = (if 2 ^ 1024 \<le> \<bar>r\<bar> then (if 0 < x then PInf else NInf) else Fin r)"
    using assms(1) by (simp add: rne_def Let_def q_def r_def)
  have "\<bar>of_int (round_half_even (x / q)) - x / q\<bar> \<le> 1 / 2"
    by (rule round_half_even_error)
  then have "\<bar>of_int (round_half_even (x / q)) - x / q\<bar> * q \<le> 1 / 2 * q"
    using q by (intro mult_right_mono) auto
  then have "\<bar>(of_int (round_half_even (x / q)) - x / q) * q\<bar> \<le> q / 2"
    using q by (simp add: abs_mult)
  then show "\<bar>r - x\<bar> \<le> q / 2"
    using q by (simp add: r_def algebra_simps)
  show "0 \<le> x \<Longrightarrow> 0 \<le> r"
    using q round_half_even_sign(1)[of "x / q"] by (simp add: r_def)
  show "x \<le> 0 \<Longrightarrow> r \<le> 0"
    using q round_half_even_sign(2)[of "x / q"]
    by (simp add: r_def mult_le_0_iff divide_le_0_iff)
qed

lemma rne_not_NaN [simp]: "rne x \<noteq> NaN"
  by (simp add: rne_def Let_def)

lemma rne_Fin_sign:
  assumes "rne x = Fin r"
  shows "(0 \<le> x \<longrightarrow> 0 \<le> r) \<and> (x \<le> 0 \<longrightarrow> r \<le> 0)"
proof (cases "x = 0")
  case True
  with assms show ?thesis by (simp add: rne_def)
next
  case False
  from rne_unfold[OF False] assms show ?thesis
    by (auto split: if_splits)
qed

lemma rne_NInf: "rne x = NInf \<Longrightarrow> x < 0"
  by (auto simp: rne_def Let_def split: if_splits)

lemma rne_nonneg: "0 \<le> x \<Longrightarrow> rne x = PInf \<or> (\<exists>r. rne x = Fin r \<and> 0 \<le> r)"
  using rne_Fin_sign[of x] rne_NInf[of x] by (cases "rne x") auto

lemma rne_eqI:
  assumes lo: "2 powi e \<le> \<bar>x\<bar>" and hi: "\<bar>x\<bar> < 2 powi (e + 1)"
    and e: "- 1022 \<le> e" "e \<le> 1022"
    and m: "\<bar>x / 2 powi (e - 52) - of_int m\<bar> < 1 / 2"
  shows "rne x = Fin (of_int m * 2 powi (e - 52))"
proof -
  have pos: "(0::rat) < 2 powi e" by simp
  have x0: "x \<noteq> 0"
  proof
    assume "x = 0"
    with lo have "(2::rat) powi e \<le> 0" by simp
    with pos show False by linarith
  qed
  have il: "ilog2 x = e" using lo hi by (rule ilog2_unique)
  define q :: rat where "q = 2 powi (e - 52)"
  define r where "r = of_int (round_half_even (x / q)) * q"
  have mx: "max (ilog2 x) (- 1022) = e" using il e by simp
  note u = rne_unfold[OF x0, unfolded mx, folded q_def, folded r_def]
  have rm: "round_half_even (x / q) = m" using m unfolding q_def by (rule round_half_even_eqI)
  have "\<bar>r\<bar> \<le> \<bar>x\<bar> + q / 2" using u(3) by linarith
  also have "\<dots> < 2 powi (e + 1) + q / 2" using hi by simp
  also have "q \<le> 2 powi (e + 1)" unfolding q_def by (intro pow2_int_mono) simp
  also have "(2::rat) powi (e + 1) \<le> 2 powi 1023" using e by (intro pow2_int_mono) simp
  finally have "\<bar>r\<bar> < 2 powi 1023 + 2 powi 1023 / 2" using u(2) by simp
  then have "\<bar>r\<bar> < 2 ^ 1024" by simp
  then have "rne x = Fin r" using u(1) by simp
  moreover have "r = of_int m * q" by (simp add: r_def rm)
  ultimately show ?thesis by (simp add: q_def)
qed

lemma rne_error:
  assumes x0: "x \<noteq> 0" and hi: "\<bar>x\<bar> < 2 ^ 1023"
  shows "\<exists>r. rne x = Fin r \<and> \<bar>r - x\<bar> \<le> 2 powi (max (ilog2 x) (- 1022) - 53)"
proof -
  define q :: rat where "q = 2 powi (max (ilog2 x) (- 1022) - 52)"
  define r where "r = of_int (round_half_even (x / q)) * q"
  note u = rne_unfold[OF x0, folded q_def, folded r_def]
  note b = ilog2_bounds[OF x0]
  have "\<not> 1023 \<le> ilog2 x"
  proof
    assume "1023 \<le> ilog2 x"
    then have "(2::rat) powi 1023 \<le> 2 powi (ilog2 x)" by (intro pow2_int_mono)
    with b hi show False by simp
  qed
  then have "max (ilog2 x) (- 1022) - 52 \<le> 970" by simp
  then have "q \<le> 2 powi 970" unfolding q_def by (intro pow2_int_mono)
  moreover have "\<bar>r\<bar> \<le> \<bar>x\<bar> + q / 2" using u(3) by linarith
  ultimately have "\<bar>r\<bar> < 2 ^ 1023 + 2 powi 970 / 2" using hi by linarith
  then have "\<bar>r\<bar> < 2 ^ 1024" by simp
  then have "rne x = Fin r" using u(1) by simp
  moreover have "q / 2 = 2 powi (max (ilog2 x) (- 1022) - 53)"
    unfolding q_def by (simp add: power_int_diff)
  ultimately show ?thesis using u(3) by auto
qed


section \<open>The roundings the sample computations go through\<close>

text \<open>
  Each rounding is certified by its binary exponent and its 53-bit significand
  (lemma \<open>rne_eqI\<close>), so that the kernel only compares numerals.
\<close>

lemma rne_c1: "rne (1 / 10) = Fin (3602879701896397 / 36028797018963968)"
  using rne_eqI[of "- 4" "1 / 10" "7205759403792794"] by simp

lemma rne_c2: "rne (1 / 20) = Fin (3602879701896397 / 72057594037927936)"
  using rne_eqI[of "- 5" "1 / 20" "7205759403792794"] by simp

lemma rne_c3: "rne (3602879701896397 / 3602879701896396800) = Fin (1152921504606847 / 1152921504606846976)"
  using rne_eqI[of "- 10" "3602879701896397 / 3602879701896396800" "4611686018427388"] by simp

lemma rne_c4: "rne (3602879701896397 / 7205759403792793600) = Fin (1152921504606847 / 2305843009213693952)"
  using rne_eqI[of "- 11" "3602879701896397 / 7205759403792793600" "4611686018427388"] by simp

lemma rne_c5: "rne (7371 / 4) = Fin (7371 / 4)"
  using rne_eqI[of "10" "7371 / 4" "8104500208336896"] by simp

lemma rne_c6: "rne (8498184410457069237 / 4611686018427387904) = Fin (4149504106668491 / 2251799813685248)"
  using rne_eqI[of "0" "8498184410457069237 / 4611686018427387904" "8299008213336982"] by simp

lemma rne_c7: "rne (103737602666712275 / 562949953421312) = Fin (6483600166669517 / 35184372088832)"
  using rne_eqI[of "7" "103737602666712275 / 562949953421312" "6483600166669517"] by simp

lemma rne_c8: "rne (46 / 25) = Fin (8286623314361713 / 4503599627370496)"
  using rne_eqI[of "0" "46 / 25" "8286623314361713"] by simp

lemma rne_c9: "rne (8498184410457069237 / 9223372036854775808) = Fin (4149504106668491 / 4503599627370496)"
  using rne_eqI[of "- 1" "8498184410457069237 / 9223372036854775808" "8299008213336982"] by simp

lemma rne_c10: "rne (103737602666712275 / 1125899906842624) = Fin (6483600166669517 / 70368744177664)"
  using rne_eqI[of "6" "103737602666712275 / 1125899906842624" "6483600166669517"] by simp

lemma rne_c11: "rne (23 / 25) = Fin (8286623314361713 / 9007199254740992)"
  using rne_eqI[of "- 1" "23 / 25" "8286623314361713"] by simp

lemma rne_c12: "rne (8290721590022619791 / 4503599627370496) = Fin (8096407802756465 / 4398046511104)"
  using rne_eqI[of "10" "8290721590022619791 / 4503599627370496" "8096407802756465"] by simp

lemma rne_c13: "rne (16573156556730878607 / 9007199254740992) = Fin (8092361599966249 / 4398046511104)"
  using rne_eqI[of "10" "16573156556730878607 / 9007199254740992" "8092361599966249"] by simp

lemma rne_c14: "rne (- 500) = Fin (- 500)"
  using rne_eqI[of "8" "- 500" "- 8796093022208000"] by simp

lemma rne_c15: "rne (144115188075855875 / 288230376151711744) = Fin (1 / 2)"
  using rne_eqI[of "- 1" "144115188075855875 / 288230376151711744" "4503599627370496"] by simp

lemma rne_c16: "rne 50 = Fin 50"
  using rne_eqI[of "5" "50" "7036874417766400"] by simp

lemma rne_c17: "rne (1 / 2) = Fin (1 / 2)"
  using rne_eqI[of "- 1" "1 / 2" "4503599627370496"] by simp

lemma rne_c18: "rne (144115188075855875 / 576460752303423488) = Fin (1 / 4)"
  using rne_eqI[of "- 2" "144115188075855875 / 576460752303423488" "4503599627370496"] by simp

lemma rne_c19: "rne 25 = Fin 25"
  using rne_eqI[of "4" "25" "7036874417766400"] by simp

lemma rne_c20: "rne (1 / 4) = Fin (1 / 4)"
  using rne_eqI[of "- 2" "1 / 4" "4503599627370496"] by simp

lemma rne_c21: "rne (- (999 / 2)) = Fin (- (999 / 2))"
  using rne_eqI[of "8" "- (999 / 2)" "- 8787296929185792"] by simp

lemma rne_c22: "rne (- (1997 / 4)) = Fin (- (1997 / 4))"
  using rne_eqI[of "8" "- (1997 / 4)" "- 8782898882674688"] by simp

lemma rne_c23: "rne (8307294836651343217 / 4503599627370496) = Fin (8112592613917327 / 4398046511104)"
  using rne_eqI[of "10" "8307294836651343217 / 4503599627370496" "8112592613917327"] by simp

lemma rne_c24: "rne (16622876296617047409 / 9007199254740992) = Fin (8116638816707543 / 4398046511104)"
  using rne_eqI[of "10" "16622876296617047409 / 9007199254740992" "8116638816707543"] by simp

lemma rne_c25: "rne 500 = Fin 500"
  using rne_eqI[of "8" "500" "8796093022208000"] by simp

lemma rne_c26: "rne (2251799813685249 / 64) = Fin (2251799813685249 / 64)"
  using rne_eqI[of "45" "2251799813685249 / 64" "4503599627370498"] by simp

lemma rne_c27: "rne (56294995342131225 / 16) = Fin (7036874417766403 / 2)"
  using rne_eqI[of "51" "56294995342131225 / 16" "7036874417766403"] by simp

lemma rne_c28: "rne (1759218604441601 / 50) = Fin (4503599627370499 / 128)"
  using rne_eqI[of "45" "1759218604441601 / 50" "4503599627370499"] by simp

lemma rne_c29: "rne (112589990684262475 / 32) = Fin (7036874417766405 / 2)"
  using rne_eqI[of "51" "112589990684262475 / 32" "7036874417766405"] by simp

lemma rne_c30: "rne (3518437208883203 / 100) = Fin (1125899906842625 / 32)"
  using rne_eqI[of "45" "3518437208883203 / 100" "4503599627370500"] by simp

lemma rne_c31: "rne (1131529406376837 / 1125899906842624) = Fin (1131529406376837 / 1125899906842624)"
  using rne_eqI[of "0" "1131529406376837 / 1125899906842624" "4526117625507348"] by simp

lemma rne_c32: "rne (28288235159420925 / 281474976710656) = Fin (7072058789855231 / 70368744177664)"
  using rne_eqI[of "6" "28288235159420925 / 281474976710656" "7072058789855231"] by simp

lemma rne_c33: "rne 1 = Fin 1"
  using rne_eqI[of "0" "1" "4503599627370496"] by simp

lemma rne_c34: "rne 100 = Fin 100"
  using rne_eqI[of "6" "100" "7036874417766400"] by simp

lemma rne_c35: "rne (183999 / 100) = Fin (8092361599966249 / 4398046511104)"
  using rne_eqI[of "10" "183999 / 100" "8092361599966249"] by simp

lemma rne_c36: "rne 35184372088832 = Fin 35184372088832"
  using rne_eqI[of "45" "35184372088832" "4503599627370496"] by simp

lemma rne_c37: "rne 3518437208883200 = Fin 3518437208883200"
  using rne_eqI[of "51" "3518437208883200" "7036874417766400"] by simp

lemma rne_c38: "rne (- 35184372088832) = Fin (- 35184372088832)"
  using rne_eqI[of "45" "- 35184372088832" "- 4503599627370496"] by simp

lemma rne_c39: "rne (- 3518437208883200) = Fin (- 3518437208883200)"
  using rne_eqI[of "51" "- 3518437208883200" "- 7036874417766400"] by simp

lemma rne_c40: "rne (167173618167992815 / 1152921504606846976) = Fin (5224175567749775 / 36028797018963968)"
  using rne_eqI[of "- 3" "167173618167992815 / 1152921504606846976" "5224175567749775"] by simp

lemma rne_c41: "rne (130604389193744375 / 9007199254740992) = Fin (8162774324609023 / 562949953421312)"
  using rne_eqI[of "3" "130604389193744375 / 9007199254740992" "8162774324609023"] by simp

lemma rne_c42: "rne (7 / 50) = Fin (1261007895663739 / 9007199254740992)"
  using rne_eqI[of "- 3" "7 / 50" "5044031582654956"] by simp

lemma rne_c43: "rne (3 / 20) = Fin (5404319552844595 / 36028797018963968)"
  using rne_eqI[of "- 3" "3 / 20" "5404319552844595"] by simp

lemma rne_c44: "rne 145 = Fin 145"
  using rne_eqI[of "7" "145" "5101733952880640"] by simp

lemma floor_rat_numeral: "\<lfloor>numeral a / numeral b :: rat\<rfloor> = numeral a div numeral b"
  using floor_divide_of_int_eq[of "numeral a" "numeral b", where ?'a = rat] by simp

lemmas rne_certs = rne_c1 rne_c2 rne_c3 rne_c4 rne_c5 rne_c6 rne_c7 rne_c8 rne_c9 rne_c10
  rne_c11 rne_c12 rne_c13 rne_c14 rne_c15 rne_c16 rne_c17 rne_c18 rne_c19 rne_c20 rne_c21
  rne_c22 rne_c23 rne_c24 rne_c25 rne_c26 rne_c27 rne_c28 rne_c29 rne_c30 rne_c31 rne_c32
  rne_c33 rne_c34 rne_c35 rne_c36 rne_c37 rne_c38 rne_c39 rne_c40 rne_c41 rne_c42 rne_c43
  rne_c44

lemma default_rates:
  "brokeragePercent default_service = Fin (3602879701896397 / 36028797018963968)"
  "feePercent default_service = Fin (3602879701896397 / 72057594037927936)"
  by (simp_all add: default_service_def NewRewardService_def rne_certs)

lemma sample_fees:
  "calculateBrokerage default_service (Fin (7371 / 4)) = Fin (8286623314361713 / 4503599627370496)"
  "calculateTransactionFee default_service (Fin (7371 / 4)) = Fin (8286623314361713 / 9007199254740992)"
  by (simp_all add: calculateBrokerage_def calculateTransactionFee_def roundToTwoDecimals_def
      default_rates round_half_away_def floor_rat_numeral rne_certs)

lemma sample_reward_eval:
  "sample_reward =
     \<lparr>r_ID = 1, r_UserID = ''USR001'', r_StockSymbol = ''AAPL'', r_Quantity = Fin (21 / 2),
      r_EventType = ''REWARD'', r_EventID = ''EVT-001'', r_EventTimestamp = 1000,
      r_StockPrice = Fin (351 / 2), r_TotalValueINR = Fin (7371 / 4),
      r_BrokerageFee = Fin (8286623314361713 / 4503599627370496),
      r_TransactionFee = Fin (8286623314361713 / 9007199254740992),
      r_NetValueINR = Fin (8092361599966249 / 4398046511104),
      r_Status = ''COMPLETED'', r_Notes = None\<rparr>"
  by (simp add: sample_reward_def new_reward_def sample_request_def IsZero_def Let_def
      rne_certs sample_fees fsub_def)

lemma adjustment_fees:
  "calculateBrokerage default_service (Fin (- 500)) = Fin (1 / 2)"
  "calculateTransactionFee default_service (Fin (- 500)) = Fin (1 / 4)"
  by (simp_all add: calculateBrokerage_def calculateTransactionFee_def roundToTwoDecimals_def
      default_rates round_half_away_def floor_rat_numeral rne_certs)

lemma adjustment_reward_eval:
  "adjustment_reward =
     \<lparr>r_ID = 2, r_UserID = ''USR001'', r_StockSymbol = ''AAPL'', r_Quantity = Fin (- 5),
      r_EventType = ''ADJUSTMENT'', r_EventID = ''EVT-ADJ-001'', r_EventTimestamp = 1000,
      r_StockPrice = Fin 100, r_TotalValueINR = Fin (- 500),
      r_BrokerageFee = Fin (1 / 2), r_TransactionFee = Fin (1 / 4),
      r_NetValueINR = Fin (- (1997 / 4)),
      r_Status = ''COMPLETED'', r_Notes = Some ''Correction for duplicate reward''\<rparr>"
  by (simp add: adjustment_reward_def new_reward_def adjustment_request_def IsZero_def Let_def
      rne_certs adjustment_fees)

lemma sample_request_valid: "validateRequest sample_request = None"
  by (simp add: validateRequest_def sample_request_def)

lemma sample_response_finite: "json_Marshal (response_of sample_reward t) = Encoded (response_of sample_reward t)"
  by (simp add: json_Marshal_def response_of_def sample_reward_eval)

lemma completed_db_eval:
  "completed_db =
     \<lparr>users = {''USR001''},
      reward_requests = [''EVT-001'' \<mapsto>
        \<lparr>ir_EventID = ''EVT-001'', ir_UserID = ''USR001'', ir_StockSymbol = ''AAPL'',
         ir_Quantity = Fin (21 / 2), ir_RequestPayload = sample_request,
         ir_ResponsePayload = Some (Encoded (response_of sample_reward 1001)),
         ir_Status = ''COMPLETED'', ir_ProcessedAt = Some 1002\<rparr>],
      rewards = [sample_reward], ledger_entries = entries_of sample_reward\<rparr>"
proof -
  have nr: "new_reward default_service sample_request (Fin (351 / 2)) 1000\<lparr>r_ID := 1\<rparr> = sample_reward"
    by (simp add: sample_reward_def)
  have ne: "entries_of sample_reward \<noteq> []"
    by (simp add: entries_of_def)
  show ?thesis
    unfolding completed_db_def ProcessReward_def
    by (simp add: sample_request_valid sample_env_def sample_db_def GetByEventID_def Exists_def
        Create_def RewardCreate_def nr Let_def createLedgerEntries_def BulkCreate_def ne
        MarkProcessed_def sample_response_finite)
       (simp add: sample_request_def)
qed


section \<open>Facts about ProcessReward\<close>

lemma existing_completed:
  "reward_requests completed_db ''EVT-001'' =
     Some \<lparr>ir_EventID = ''EVT-001'', ir_UserID = ''USR001'', ir_StockSymbol = ''AAPL'',
           ir_Quantity = Fin (21 / 2), ir_RequestPayload = sample_request,
           ir_ResponsePayload = Some (Encoded (response_of sample_reward 1001)),
           ir_Status = ''COMPLETED'', ir_ProcessedAt = Some 1002\<rparr>"
  by (simp add: completed_db_eval)

lemmas ProcessReward_defs = ProcessReward_def GetByEventID_def Exists_def Create_def
  RewardCreate_def createLedgerEntries_def BulkCreate_def MarkProcessed_def Let_def






lemma sample_run:
  "ProcessReward default_service sample_env sample_request sample_db =
     (Inr (response_of sample_reward 1001), completed_db)"
proof -
  have nr: "new_reward default_service sample_request (Fin (351 / 2)) 1000\<lparr>r_ID := 1\<rparr> = sample_reward"
    by (simp add: sample_reward_def)
  have "fst (ProcessReward default_service sample_env sample_request sample_db) =
          Inr (response_of sample_reward 1001)"
    unfolding ProcessReward_def
    by (simp add: sample_request_valid sample_env_def sample_db_def GetByEventID_def Exists_def
        Create_def RewardCreate_def nr Let_def)
       (simp add: sample_request_def)
  then show ?thesis by (simp add: completed_db_def prod_eq_iff)
qed




lemma adjustment_request_valid: "validateRequest adjustment_request = None"
  by (simp add: validateRequest_def adjustment_request_def)

lemma adjustment_run:
  "\<exists>d'. ProcessReward default_service adjustment_env adjustment_request sample_db =
     (Inr (response_of adjustment_reward 1001), d') \<and> rewards d' = [adjustment_reward]"
proof -
  have nr: "new_reward default_service adjustment_request (Fin 100) 1000\<lparr>r_ID := 2\<rparr> = adjustment_reward"
    by (simp add: adjustment_reward_def)
  have u: "req_UserID adjustment_request = ''USR001''" "req_EventID adjustment_request = ''EVT-ADJ-001''"
    by (simp_all add: adjustment_request_def)
  show ?thesis
    unfolding ProcessReward_def
    by (simp add: adjustment_request_valid adjustment_env_def sample_env_def sample_db_def
        GetByEventID_def Exists_def Create_def RewardCreate_def nr Let_def u
        createLedgerEntries_def BulkCreate_def MarkProcessed_def)
qed

lemma ProcessReward_new_rewards:
  assumes "ProcessReward rs env req d = (res, d')"
  shows "rewards d' = rewards d \<or>
         (\<exists>price i. latest_price env = Some price \<and>
            rewards d' = rewards d @ [(new_reward rs req price (now_event env))\<lparr>r_ID := i\<rparr>] \<and>
            res = Inr (response_of ((new_reward rs req price (now_event env))\<lparr>r_ID := i\<rparr>)
                         (now_response env)))"
  using assms
  by (auto simp: ProcessReward_defs split: option.splits sum.splits if_splits)

section \<open>Facts about the ledger entries\<close>

lemma fle0_iff: "fle (Fin 0) v \<longleftrightarrow> v = PInf \<or> (\<exists>x. v = Fin x \<and> 0 \<le> x)"
  by (cases v) (auto simp: fle_def)

lemma flt0_fle0: "flt (Fin 0) v \<Longrightarrow> fle (Fin 0) v"
  by (simp add: fle_def)

lemma fle0_feq: "fle (Fin 0) v \<Longrightarrow> feq v v"
  by (cases v) (auto simp: fle_def)

lemma rne_fle0: "0 \<le> x \<Longrightarrow> fle (Fin 0) (rne x)"
  using rne_nonneg[of x] by (auto simp: fle0_iff)

lemma fadd_fle0:
  assumes "fle (Fin 0) a" and "fle (Fin 0) b"
  shows "fle (Fin 0) (fadd a b)"
proof (cases a)
  case (Fin x)
  show ?thesis
  proof (cases b)
    case (Fin y)
    with \<open>a = Fin x\<close> assms have "0 \<le> x + y" by (simp add: fle0_iff)
    then show ?thesis using Fin \<open>a = Fin x\<close> by (simp add: rne_fle0)
  qed (use assms Fin in \<open>simp_all add: fle0_iff\<close>)
next
  case PInf
  then show ?thesis using assms by (cases b) (simp_all add: fle0_iff)
qed (use assms in \<open>simp_all add: fle0_iff\<close>)

lemma foldl_fadd_fle0:
  "fle (Fin 0) a \<Longrightarrow> (\<forall>v \<in> set vs. fle (Fin 0) v) \<Longrightarrow> fle (Fin 0) (foldl fadd a vs)"
  by (induction vs arbitrary: a) (simp_all add: fadd_fle0)

lemma math_Abs_fle0: "v \<noteq> NaN \<Longrightarrow> fle (Fin 0) (math_Abs v)"
  by (cases v) (auto simp: fle0_iff)

lemma entries_amounts_equal:
  "map l_Amount (filter (\<lambda>entry. l_EntryType entry = ''DEBIT'') (entries_of reward)) =
   map l_Amount (filter (\<lambda>entry. l_EntryType entry = ''CREDIT'') (entries_of reward))"
  by (simp add: entries_of_def)

lemma entries_amounts_fle0:
  assumes "r_Quantity reward = Fin q" and "r_StockPrice reward = Fin p" and "0 \<le> p"
    and "r_TotalValueINR reward = fmul (r_Quantity reward) (r_StockPrice reward)"
    and "entry \<in> set (entries_of reward)"
  shows "fle (Fin 0) (l_Amount entry)"
proof (cases "0 < q")
  case True
  then have "fle (Fin 0) (r_TotalValueINR reward)"
    using assms by (simp add: rne_fle0)
  then show ?thesis
    using assms(1,5) True by (auto simp: entries_of_def flt0_fle0 split: if_splits)
next
  case False
  have "r_TotalValueINR reward \<noteq> NaN" using assms by simp
  then have "fle (Fin 0) (math_Abs (r_TotalValueINR reward))" by (rule math_Abs_fle0)
  then show ?thesis
    using assms(1,5) False by (auto simp: entries_of_def)
qed

lemma new_reward_fields:
  "r_Quantity ((new_reward rs req price now)\<lparr>r_ID := i\<rparr>) = req_Quantity req"
  "r_StockPrice ((new_reward rs req price now)\<lparr>r_ID := i\<rparr>) = price"
  "r_TotalValueINR ((new_reward rs req price now)\<lparr>r_ID := i\<rparr>) = fmul (req_Quantity req) price"
  "r_ID ((new_reward rs req price now)\<lparr>r_ID := i\<rparr>) = i"
  "r_UserID ((new_reward rs req price now)\<lparr>r_ID := i\<rparr>) = req_UserID req"
  "r_EventID ((new_reward rs req price now)\<lparr>r_ID := i\<rparr>) = req_EventID req"
  "r_BrokerageFee ((new_reward rs req price now)\<lparr>r_ID := i\<rparr>) =
     calculateBrokerage rs (fmul (req_Quantity req) price)"
  "r_TransactionFee ((new_reward rs req price now)\<lparr>r_ID := i\<rparr>) =
     calculateTransactionFee rs (fmul (req_Quantity req) price)"
  by (simp_all add: new_reward_def Let_def)

lemma sample_sums:
  "sum_amounts ''DEBIT'' (entries_of sample_reward) = Fin (8116638816707543 / 4398046511104)"
  "sum_amounts ''CREDIT'' (entries_of sample_reward) = Fin (8116638816707543 / 4398046511104)"
  by (simp_all add: sum_amounts_def entries_of_def sample_reward_eval rne_certs)

section \<open>Facts about roundToTwoDecimals\<close>

lemma floor_half: "\<lfloor>1 / 2 :: rat\<rfloor> = 0"
  by (simp add: floor_eq_iff)

lemma round_half_away_0 [simp]: "round_half_away 0 = 0"
  by (simp add: round_half_away_def floor_half)

lemma round_half_away_error: "\<bar>of_int (round_half_away x) - x\<bar> \<le> 1 / 2"
proof (cases "0 \<le> x")
  case True
  define k where "k = \<lfloor>x + 1 / 2\<rfloor>"
  have k: "round_half_away x = k" using True by (simp add: round_half_away_def k_def)
  have "of_int k \<le> x + 1 / 2" "x + 1 / 2 < of_int k + 1" unfolding k_def by linarith+
  then show ?thesis unfolding k by linarith
next
  case False
  define j where "j = \<lfloor>- x + 1 / 2\<rfloor>"
  have k: "rat_of_int (round_half_away x) = - of_int j"
    using False by (simp add: round_half_away_def j_def)
  have "of_int j \<le> - x + 1 / 2" "- x + 1 / 2 < of_int j + 1" unfolding j_def by linarith+
  then show ?thesis unfolding k by linarith
qed

lemma round_half_away_eqI:
  assumes "\<bar>x - of_int m\<bar> < 1 / 2"
  shows "round_half_away x = m"
proof -
  have "\<bar>of_int (round_half_away x) - x\<bar> \<le> 1 / 2" by (rule round_half_away_error)
  with assms have "\<bar>rat_of_int (round_half_away x) - of_int m\<bar> < 1" by linarith
  then have "\<bar>rat_of_int (round_half_away x - m)\<bar> < 1" by simp
  then have "\<bar>round_half_away x - m\<bar> < 1" by (simp only: of_int_abs[symmetric] of_int_less_1_iff)
  then show ?thesis by simp
qed

lemma round_half_away_tie:
  assumes "\<bar>of_int (round_half_away x) - x\<bar> = 1 / 2"
  shows "\<bar>x\<bar> < \<bar>of_int (round_half_away x)\<bar>"
proof (cases "0 \<le> x")
  case True
  define k where "k = \<lfloor>x + 1 / 2\<rfloor>"
  have k: "round_half_away x = k" using True by (simp add: round_half_away_def k_def)
  have "of_int k \<le> x + 1 / 2" "x + 1 / 2 < of_int k + 1" unfolding k_def by linarith+
  with assms[unfolded k] have "of_int k = x + 1 / 2" by linarith
  then show ?thesis using True unfolding k by simp
next
  case False
  define j where "j = \<lfloor>- x + 1 / 2\<rfloor>"
  have k: "rat_of_int (round_half_away x) = - of_int j"
    using False by (simp add: round_half_away_def j_def)
  have "of_int j \<le> - x + 1 / 2" "- x + 1 / 2 < of_int j + 1" unfolding j_def by linarith+
  with assms[unfolded k] have "of_int j = - x + 1 / 2" by linarith
  then show ?thesis using False unfolding k by simp
qed

lemma rne_error_le:
  assumes hi: "\<bar>x\<bar> < 2 powi (k + 1)" and k: "- 1022 \<le> k" "k \<le> 1022"
  shows "\<exists>r. rne x = Fin r \<and> \<bar>r - x\<bar> \<le> 2 powi (k - 53)"
proof (cases "x = 0")
  case True
  then show ?thesis by (simp add: rne_def)
next
  case False
  have "(2::rat) powi (k + 1) \<le> 2 powi 1023" using k by (intro pow2_int_mono) simp
  with hi have hi': "\<bar>x\<bar> < 2 ^ 1023" by simp
  from rne_error[OF False hi'] obtain r where r: "rne x = Fin r"
    "\<bar>r - x\<bar> \<le> 2 powi (max (ilog2 x) (- 1022) - 53)" by auto
  note b = ilog2_bounds[OF False]
  have "\<not> k < ilog2 x"
  proof
    assume "k < ilog2 x"
    then have "(2::rat) powi (k + 1) \<le> 2 powi (ilog2 x)" by (intro pow2_int_mono) simp
    with b hi show False by linarith
  qed
  then have "max (ilog2 x) (- 1022) - 53 \<le> k - 53" using k by simp
  then have "(2::rat) powi (max (ilog2 x) (- 1022) - 53) \<le> 2 powi (k - 53)"
    by (rule pow2_int_mono)
  with r show ?thesis by auto
qed

lemma roundToTwoDecimals_Fin:
  assumes "rne (x * 100) = Fin z"
  shows "roundToTwoDecimals (Fin x) = rne (of_int (round_half_away z) / 100)"
  using assms by (simp add: roundToTwoDecimals_def)

lemma roundToTwoDecimals_fixed:
  fixes R :: int
  assumes R: "\<bar>R\<bar> < 100 * 2 ^ 45" and y: "rne (of_int R / 100) = Fin y"
  shows "roundToTwoDecimals (Fin y) = Fin y"
proof -
  from R have "rat_of_int \<bar>R\<bar> < rat_of_int (100 * 2 ^ 45)" by (simp only: of_int_less_iff)
  then have RB: "\<bar>rat_of_int R\<bar> < 100 * 2 ^ 45" by simp
  from R have "\<bar>R\<bar> \<le> 100 * 2 ^ 45 - 1" by simp
  then have "rat_of_int \<bar>R\<bar> \<le> rat_of_int (100 * 2 ^ 45 - 1)" by (simp only: of_int_le_iff)
  then have RB1: "\<bar>rat_of_int R\<bar> \<le> 100 * 2 ^ 45 - 1" by simp
  have "\<bar>rat_of_int R / 100\<bar> < 2 powi (44 + 1)" using RB by simp
  then have "\<exists>r. rne (of_int R / 100) = Fin r \<and> \<bar>r - of_int R / 100\<bar> \<le> 2 powi (44 - 53)"
    by (intro rne_error_le) simp_all
  with y have e1: "\<bar>y - of_int R / 100\<bar> \<le> 1 / 512" by simp
  have e1': "\<bar>y * 100 - of_int R\<bar> \<le> 100 / 512"
  proof -
    have "\<bar>y * 100 - of_int R\<bar> = \<bar>y - of_int R / 100\<bar> * 100" by (simp add: abs_if)
    also have "\<dots> \<le> 1 / 512 * 100" using e1 by (intro mult_right_mono) simp_all
    finally show ?thesis by simp
  qed
  have "\<bar>y * 100\<bar> \<le> \<bar>rat_of_int R\<bar> + 100 / 512" using e1' by linarith
  with RB1 have "\<bar>y * 100\<bar> < 2 powi (51 + 1)" by simp
  then have "\<exists>r. rne (y * 100) = Fin r \<and> \<bar>r - y * 100\<bar> \<le> 2 powi (51 - 53)"
    by (intro rne_error_le) simp_all
  then obtain z where z: "rne (y * 100) = Fin z" and e2: "\<bar>z - y * 100\<bar> \<le> 1 / 4"
    by auto
  have "\<bar>z - of_int R\<bar> < 1 / 2" using e1' e2 by linarith
  then have "round_half_away z = R" by (rule round_half_away_eqI)
  then show ?thesis using roundToTwoDecimals_Fin[OF z] y by simp
qed

lemma roundToTwoDecimals_edge:
  "roundToTwoDecimals (Fin 35184372088832) = Fin 35184372088832"
  "roundToTwoDecimals (Fin (- 35184372088832)) = Fin (- 35184372088832)"
  by (simp_all add: roundToTwoDecimals_def rne_certs round_half_away_def floor_rat_numeral)

lemma roundToTwoDecimals_idempotent:
  assumes "\<bar>x\<bar> < 2 ^ 45"
  shows "roundToTwoDecimals (roundToTwoDecimals (Fin x)) = roundToTwoDecimals (Fin x)"
proof -
  have x100: "\<bar>x * 100\<bar> < 100 * 2 ^ 45" using assms by (simp add: abs_mult)
  then have "\<bar>x * 100\<bar> < 2 powi (51 + 1)" by simp
  then have "\<exists>r. rne (x * 100) = Fin r \<and> \<bar>r - x * 100\<bar> \<le> 2 powi (51 - 53)"
    by (intro rne_error_le) simp_all
  then obtain z where z: "rne (x * 100) = Fin z" and ez: "\<bar>z - x * 100\<bar> \<le> 1 / 4"
    by auto
  define R where "R = round_half_away z"
  have "\<bar>of_int R - z\<bar> \<le> 1 / 2" unfolding R_def by (rule round_half_away_error)
  with ez x100 have "\<bar>rat_of_int R\<bar> < 100 * 2 ^ 45 + 1" by linarith
  then have "rat_of_int \<bar>R\<bar> < rat_of_int (100 * 2 ^ 45 + 1)" by simp
  then have "\<bar>R\<bar> < 100 * 2 ^ 45 + 1" by (simp only: of_int_less_iff)
  then have RB: "\<bar>R\<bar> \<le> 100 * 2 ^ 45" by simp
  have r1: "roundToTwoDecimals (Fin x) = rne (of_int R / 100)"
    using roundToTwoDecimals_Fin[OF z] by (simp add: R_def)
  show ?thesis
  proof (cases "\<bar>R\<bar> < 100 * 2 ^ 45")
    case True
    then have "rat_of_int \<bar>R\<bar> < rat_of_int (100 * 2 ^ 45)" by (simp only: of_int_less_iff)
    then have "\<bar>rat_of_int R / 100\<bar> < 2 powi (44 + 1)" by simp
    then have "\<exists>r. rne (of_int R / 100) = Fin r \<and> \<bar>r - of_int R / 100\<bar> \<le> 2 powi (44 - 53)"
      by (intro rne_error_le) simp_all
    then obtain y where y: "rne (of_int R / 100) = Fin y" by auto
    show ?thesis unfolding r1 y using roundToTwoDecimals_fixed[OF True y] .
  next
    case False
    with RB have "R = 100 * 2 ^ 45 \<or> R = - (100 * 2 ^ 45)" by linarith
    then show ?thesis
    proof
      assume "R = 100 * 2 ^ 45"
      then have "rne (of_int R / 100) = Fin 35184372088832" by (simp add: rne_certs)
      then show ?thesis unfolding r1 by (simp add: roundToTwoDecimals_edge)
    next
      assume "R = - (100 * 2 ^ 45)"
      then have "rne (of_int R / 100) = Fin (- 35184372088832)" by (simp add: rne_certs)
      then show ?thesis unfolding r1 by (simp add: roundToTwoDecimals_edge)
    qed
  qed
qed

lemma math_Abs_fneg [simp]: "math_Abs (fneg v) = math_Abs v"
  by (cases v) simp_all

section \<open>Facts about the fees\<close>








section \<open>The claims\<close>

text \<open>
  C7. ProcessReward fails with a validation error whenever the user id, the stock symbol
  or the event id is empty or the quantity is zero, and then the database is left as it
  was: no idempotency record, no reward and no ledger entry is created.
\<close>

theorem C7_validation_no_state_change:
  assumes "req_UserID req = [] \<or> req_StockSymbol req = [] \<or> req_EventID req = []
           \<or> feq (req_Quantity req) (Fin 0)"
  shows "\<exists>msg. ProcessReward rs env req d = (Inl (ValidationFailed msg), d)"
  using assms by (auto simp: ProcessReward_def validateRequest_def)

theorem C7_witness:
  "feq (req_Quantity (sample_request\<lparr>req_Quantity := Fin 0\<rparr>)) (Fin 0) \<and>
   (\<exists>msg. ProcessReward default_service sample_env (sample_request\<lparr>req_Quantity := Fin 0\<rparr>)
            sample_db
      = (Inl (ValidationFailed msg), sample_db))"
  using C7_validation_no_state_change[of "sample_request\<lparr>req_Quantity := Fin 0\<rparr>"
      default_service sample_env sample_db]
  by simp

text \<open>
  C2. A request that passes validation and whose event id has an idempotency record with
  status COMPLETED and a cached response gets that response back, with every field as
  cached except the message, which marks it as a duplicate. Nothing is recomputed (the
  result depends on neither the rates nor the price service), nothing is written, and
  the call returns no error. The lookup has to reach the database.
\<close>

theorem C2_completed_replay_returns_cached:
  assumes "validateRequest req = None"
    and "lookup_ok env"
    and "reward_requests d (req_EventID req) = Some existing"
    and "ir_Status existing = ''COMPLETED''"
    and "ir_ResponsePayload existing = Some (Encoded cached)"
  shows "ProcessReward rs env req d =
           (Inr (cached\<lparr>resp_Message := ''Duplicate request - returning previous result''\<rparr>), d)"
  using assms by (simp add: ProcessReward_def GetByEventID_def)

theorem C2_witness:
  "validateRequest sample_request = None \<and> lookup_ok (sample_env\<lparr>latest_price := None\<rparr>) \<and>
   (\<exists>existing. reward_requests completed_db (req_EventID sample_request) = Some existing
      \<and> ir_Status existing = ''COMPLETED''
      \<and> ir_ResponsePayload existing = Some (Encoded (response_of sample_reward 1001))) \<and>
   ProcessReward default_service (sample_env\<lparr>latest_price := None\<rparr>) sample_request completed_db =
     (Inr ((response_of sample_reward 1001)
            \<lparr>resp_Message := ''Duplicate request - returning previous result''\<rparr>), completed_db)"
proof -
  have v: "validateRequest sample_request = None" by (rule sample_request_valid)
  have l: "lookup_ok (sample_env\<lparr>latest_price := None\<rparr>)" by (simp add: sample_env_def)
  have e: "req_EventID sample_request = ''EVT-001''" by (simp add: sample_request_def)
  note r = existing_completed[folded e]
  from C2_completed_replay_returns_cached[OF v l r, of "response_of sample_reward 1001" default_service]
    v l r
  show ?thesis by simp
qed

text \<open>
  C3. Storing the reward and its ledger entries as one unit would make the call fail
  when the ledger entries cannot be stored. ProcessReward does not: when BulkCreate fails
  after the reward row went in, the call still returns the SUCCESS response, the reward
  row stays, and no ledger entry exists for it.
\<close>

theorem C3_ledger_failure_is_swallowed:
  assumes "validateRequest req = None"
    and "reward_requests d (req_EventID req) = None"
    and "users_ok env" and "req_UserID req \<in> users d"
    and "reserve_ok env"
    and "latest_price env = Some price"
    and "reward_insert env = Some i"
    and "\<not> ledger_ok env"
  shows "\<exists>d'. ProcessReward rs env req d =
                 (Inr (response_of ((new_reward rs req price (now_event env))\<lparr>r_ID := i\<rparr>)
                         (now_response env)), d')
            \<and> rewards d' = rewards d @ [(new_reward rs req price (now_event env))\<lparr>r_ID := i\<rparr>]
            \<and> ledger_entries d' = ledger_entries d"
  using assms
  by (simp add: ProcessReward_def GetByEventID_def Exists_def Create_def RewardCreate_def
      createLedgerEntries_def BulkCreate_def MarkProcessed_def Let_def)

theorem C3_witness:
  "\<not> ledger_ok (sample_env\<lparr>ledger_ok := False\<rparr>) \<and>
   (\<exists>d'. ProcessReward default_service (sample_env\<lparr>ledger_ok := False\<rparr>) sample_request sample_db
            = (Inr (response_of sample_reward 1001), d')
          \<and> rewards d' = [sample_reward] \<and> ledger_entries d' = [])"
proof -
  have v: "validateRequest sample_request = None" by (rule sample_request_valid)
  have h: "reward_requests sample_db (req_EventID sample_request) = None"
    "users_ok (sample_env\<lparr>ledger_ok := False\<rparr>)" "req_UserID sample_request \<in> users sample_db"
    "reserve_ok (sample_env\<lparr>ledger_ok := False\<rparr>)"
    "latest_price (sample_env\<lparr>ledger_ok := False\<rparr>) = Some (Fin (351 / 2))"
    "reward_insert (sample_env\<lparr>ledger_ok := False\<rparr>) = Some 1"
    "\<not> ledger_ok (sample_env\<lparr>ledger_ok := False\<rparr>)"
    by (simp_all add: sample_db_def sample_env_def sample_request_def)
  have t: "now_event (sample_env\<lparr>ledger_ok := False\<rparr>) = 1000"
    "now_response (sample_env\<lparr>ledger_ok := False\<rparr>) = 1001"
    "rewards sample_db = []" "ledger_entries sample_db = []"
    by (simp_all add: sample_env_def sample_db_def)
  from C3_ledger_failure_is_swallowed[OF v h, of default_service] h(7)
  show ?thesis unfolding t by (simp add: sample_reward_def)
qed



text \<open>
  C4. Every reward row that a call of ProcessReward adds has as its total value the
  binary64 product of quantity and unit price, and as its net value the total minus the
  brokerage fee minus the transaction fee when the quantity is positive, and the total
  plus both fees when the quantity is negative; the response of the call carries the
  same four amounts.
\<close>

theorem C4_net_value:
  assumes "ProcessReward rs env req d = (res, d')"
    and "created \<in> set (rewards d')" and "created \<notin> set (rewards d)"
  shows "r_Quantity created = req_Quantity req
       \<and> latest_price env = Some (r_StockPrice created)
       \<and> r_TotalValueINR created = fmul (r_Quantity created) (r_StockPrice created)
       \<and> (flt (Fin 0) (r_Quantity created) \<longrightarrow>
            r_NetValueINR created =
              fsub (fsub (r_TotalValueINR created) (r_BrokerageFee created))
                (r_TransactionFee created))
       \<and> (flt (r_Quantity created) (Fin 0) \<longrightarrow>
            r_NetValueINR created =
              fadd (fadd (r_TotalValueINR created) (r_BrokerageFee created))
                (r_TransactionFee created))
       \<and> (\<exists>resp. res = Inr resp
            \<and> resp_TotalValueINR resp = r_TotalValueINR created
            \<and> resp_BrokerageFee resp = r_BrokerageFee created
            \<and> resp_TransactionFee resp = r_TransactionFee created
            \<and> resp_NetValueINR resp = r_NetValueINR created)"
proof -
  from ProcessReward_new_rewards[OF assms(1)] assms(2,3)
  obtain price i where p: "latest_price env = Some price"
    and c: "created = (new_reward rs req price (now_event env))\<lparr>r_ID := i\<rparr>"
    and r: "res = Inr (response_of created (now_response env))"
    by auto
  have lt: "flt (Fin 0) q \<Longrightarrow> \<not> flt q (Fin 0)" for q
    by (cases q) auto
  show ?thesis
    using p lt[of "req_Quantity req"]
    by (auto simp: c r new_reward_def response_of_def Let_def)
qed

theorem C4_witness:
  "ProcessReward default_service sample_env sample_request sample_db
     = (Inr (response_of sample_reward 1001), completed_db)
   \<and> sample_reward \<in> set (rewards completed_db) \<and> sample_reward \<notin> set (rewards sample_db)
   \<and> flt (Fin 0) (r_Quantity sample_reward)
   \<and> r_TotalValueINR sample_reward = Fin (7371 / 4)
   \<and> r_NetValueINR sample_reward = Fin (8092361599966249 / 4398046511104)
   \<and> fsub (fsub (r_TotalValueINR sample_reward) (r_BrokerageFee sample_reward))
        (r_TransactionFee sample_reward) = Fin (8092361599966249 / 4398046511104)
   \<and> flt (r_Quantity adjustment_reward) (Fin 0)
   \<and> r_NetValueINR adjustment_reward = Fin (- (1997 / 4))
   \<and> fadd (fadd (r_TotalValueINR adjustment_reward) (r_BrokerageFee adjustment_reward))
        (r_TransactionFee adjustment_reward) = Fin (- (1997 / 4))"
proof -
  have a: "sample_reward \<in> set (rewards completed_db)" "sample_reward \<notin> set (rewards sample_db)"
    by (simp_all add: completed_db_eval sample_db_def)
  have q: "flt (Fin 0) (r_Quantity sample_reward)" "r_TotalValueINR sample_reward = Fin (7371 / 4)"
    "r_NetValueINR sample_reward = Fin (8092361599966249 / 4398046511104)"
    by (simp_all add: sample_reward_eval)
  obtain d' where b: "ProcessReward default_service adjustment_env adjustment_request sample_db =
     (Inr (response_of adjustment_reward 1001), d')" "rewards d' = [adjustment_reward]"
    using adjustment_run by blast
  have b': "adjustment_reward \<in> set (rewards d')" "adjustment_reward \<notin> set (rewards sample_db)"
    by (simp_all add: b sample_db_def)
  have q': "flt (r_Quantity adjustment_reward) (Fin 0)"
    "r_NetValueINR adjustment_reward = Fin (- (1997 / 4))"
    by (simp_all add: adjustment_reward_eval)
  from C4_net_value[OF sample_run a] C4_net_value[OF b(1) b'] q q' sample_run a
  show ?thesis by simp
qed

text \<open>
  C1. For a reward built by the service from a finite non-zero quantity (of either sign)
  and a finite non-negative price, with fees as the service computes them, the ledger
  entries balance: the binary64 sum of the DEBIT amounts equals (Go's \<^verbatim>\<open>==\<close>) the sum of
  the CREDIT amounts.
\<close>

theorem C1_ledger_balanced:
  assumes "req_Quantity req = Fin q" and "q \<noteq> 0" and "price = Fin p" and "0 \<le> p"
  shows "feq (sum_amounts ''DEBIT'' (entries_of ((new_reward rs req price now)\<lparr>r_ID := i\<rparr>)))
             (sum_amounts ''CREDIT'' (entries_of ((new_reward rs req price now)\<lparr>r_ID := i\<rparr>)))"
proof -
  let ?r = "(new_reward rs req price now)\<lparr>r_ID := i\<rparr>"
  have eq: "sum_amounts ''DEBIT'' (entries_of ?r) = sum_amounts ''CREDIT'' (entries_of ?r)"
    unfolding sum_amounts_def entries_amounts_equal ..
  have "\<forall>entry \<in> set (entries_of ?r). fle (Fin 0) (l_Amount entry)"
    using entries_amounts_fle0[of ?r q p] assms by (simp add: new_reward_fields)
  then have "fle (Fin 0) (sum_amounts ''CREDIT'' (entries_of ?r))"
    unfolding sum_amounts_def by (intro foldl_fadd_fle0) (auto simp: fle_def)
  then show ?thesis unfolding eq by (rule fle0_feq)
qed

theorem C1_witness:
  "req_Quantity sample_request = Fin (21 / 2) \<and> (21 / 2 :: rat) \<noteq> 0 \<and> (0 :: rat) \<le> 351 / 2
   \<and> feq (sum_amounts ''DEBIT'' (entries_of sample_reward))
           (sum_amounts ''CREDIT'' (entries_of sample_reward))
   \<and> sum_amounts ''DEBIT'' (entries_of sample_reward) = Fin (8116638816707543 / 4398046511104)
   \<and> req_Quantity adjustment_request = Fin (- 5) \<and> (- 5 :: rat) \<noteq> 0 \<and> (0 :: rat) \<le> 100
   \<and> feq (sum_amounts ''DEBIT'' (entries_of adjustment_reward))
           (sum_amounts ''CREDIT'' (entries_of adjustment_reward))
   \<and> sum_amounts ''DEBIT'' (entries_of adjustment_reward) = Fin 500"
proof -
  have q: "req_Quantity sample_request = Fin (21 / 2)" by (simp add: sample_request_def)
  have q': "req_Quantity adjustment_request = Fin (- 5)" by (simp add: adjustment_request_def)
  have s: "sum_amounts ''DEBIT'' (entries_of adjustment_reward) = Fin 500"
    by (simp add: sum_amounts_def entries_of_def adjustment_reward_eval rne_certs)
  from C1_ledger_balanced[where req = sample_request and q = "21 / 2" and price = "Fin (351 / 2)"
        and p = "351 / 2" and rs = default_service and now = 1000 and i = 1]
    C1_ledger_balanced[where req = adjustment_request and q = "- 5" and price = "Fin 100"
        and p = 100 and rs = default_service and now = 1000 and i = 2]
    q q' s sample_sums(1)
  show ?thesis by (simp add: sample_reward_def adjustment_reward_def)
qed

text \<open>
  C10. Every ledger entry generated for a reward built from a finite quantity and a
  finite non-negative unit price has a non-negative amount, the currency INR, the
  reward's id and user id, and the reward's event id as its reference.
\<close>

theorem C10_entries_well_formed:
  assumes "req_Quantity req = Fin q" and "price = Fin p" and "0 \<le> p"
    and "entry \<in> set (entries_of ((new_reward rs req price now)\<lparr>r_ID := i\<rparr>))"
  shows "fle (Fin 0) (l_Amount entry) \<and> l_Currency entry = ''INR'' \<and> l_RewardID entry = i
       \<and> l_UserID entry = req_UserID req \<and> l_ReferenceID entry = Some (req_EventID req)"
proof -
  let ?r = "(new_reward rs req price now)\<lparr>r_ID := i\<rparr>"
  have "fle (Fin 0) (l_Amount entry)"
    using entries_amounts_fle0[of ?r q p entry] assms by (simp add: new_reward_fields)
  moreover have "l_Currency entry = ''INR'' \<and> l_RewardID entry = r_ID ?r
       \<and> l_UserID entry = r_UserID ?r \<and> l_ReferenceID entry = Some (r_EventID ?r)"
    using assms(4) unfolding entries_of_def by (auto split: if_splits)
  ultimately show ?thesis by (simp add: new_reward_fields)
qed

theorem C10_witness:
  "req_Quantity sample_request = Fin (21 / 2) \<and> (0 :: rat) \<le> 351 / 2
   \<and> \<lparr>l_RewardID = 1, l_UserID = ''USR001'', l_EntryType = ''CREDIT'', l_AccountType = ''CASH'',
       l_Amount = Fin (8286623314361713 / 4503599627370496), l_Currency = ''INR'',
       l_Description = Some (BrokerageDesc ''EVT-001''), l_ReferenceID = Some ''EVT-001''\<rparr>
       \<in> set (entries_of sample_reward)
   \<and> fle (Fin 0) (Fin (8286623314361713 / 4503599627370496))"
proof -
  let ?e = "\<lparr>l_RewardID = 1, l_UserID = ''USR001'', l_EntryType = ''CREDIT'', l_AccountType = ''CASH'',
       l_Amount = Fin (8286623314361713 / 4503599627370496), l_Currency = ''INR'',
       l_Description = Some (BrokerageDesc ''EVT-001''), l_ReferenceID = Some ''EVT-001''\<rparr>"
  have q: "req_Quantity sample_request = Fin (21 / 2)" by (simp add: sample_request_def)
  have m: "?e \<in> set (entries_of ((new_reward default_service sample_request (Fin (351 / 2)) 1000)\<lparr>r_ID := 1\<rparr>))"
    unfolding sample_reward_def[symmetric] by (simp add: entries_of_def sample_reward_eval)
  from C10_entries_well_formed[where req = sample_request and q = "21 / 2"
        and price = "Fin (351 / 2)" and p = "351 / 2" and rs = default_service and now = 1000
        and i = 1 and entry = ?e] q m
  show ?thesis by (simp add: sample_reward_def)
qed

text \<open>
  C6. For a reward with a negative quantity the generator emits exactly two entries,
  CREDIT STOCK_ASSET and DEBIT ADJUSTMENT_EXPENSE, both for the absolute total value, and
  no fee entries whatever the fees are. For quantity -5 at price 100.00 the total is
  -500, both fees are positive, and the entries are CREDIT STOCK_ASSET 500 and DEBIT
  ADJUSTMENT_EXPENSE 500.
\<close>

theorem C6_negative_quantity_entries:
  "(flt (r_Quantity reward) (Fin 0) \<longrightarrow>
      entries_of reward =
        [\<lparr>l_RewardID = r_ID reward, l_UserID = r_UserID reward,
          l_EntryType = ''CREDIT'', l_AccountType = ''STOCK_ASSET'',
          l_Amount = math_Abs (r_TotalValueINR reward), l_Currency = ''INR'',
          l_Description = Some (StockAdjustmentDesc (r_StockSymbol reward) (r_Quantity reward)
                                  (r_StockPrice reward)),
          l_ReferenceID = Some (r_EventID reward)\<rparr>,
         \<lparr>l_RewardID = r_ID reward, l_UserID = r_UserID reward,
          l_EntryType = ''DEBIT'', l_AccountType = ''ADJUSTMENT_EXPENSE'',
          l_Amount = math_Abs (r_TotalValueINR reward), l_Currency = ''INR'',
          l_Description = Some (AdjustmentDesc (r_EventID reward)),
          l_ReferenceID = Some (r_EventID reward)\<rparr>])
   \<and> r_Quantity adjustment_reward = Fin (- 5) \<and> r_StockPrice adjustment_reward = Fin 100
   \<and> r_TotalValueINR adjustment_reward = Fin (- 500)
   \<and> flt (Fin 0) (r_BrokerageFee adjustment_reward)
   \<and> flt (Fin 0) (r_TransactionFee adjustment_reward)
   \<and> map (\<lambda>entry. (l_EntryType entry, l_AccountType entry, l_Amount entry))
        (entries_of adjustment_reward) =
      [(''CREDIT'', ''STOCK_ASSET'', Fin 500), (''DEBIT'', ''ADJUSTMENT_EXPENSE'', Fin 500)]"
proof -
  have neg: "flt q (Fin 0) \<Longrightarrow> \<not> flt (Fin 0) q" for q
    by (cases q) auto
  have "flt (r_Quantity reward) (Fin 0) \<longrightarrow> \<not> flt (Fin 0) (r_Quantity reward)"
    using neg by blast
  then show ?thesis
    by (auto simp: entries_of_def adjustment_reward_eval)
qed

theorem C6_witness:
  "flt (r_Quantity adjustment_reward) (Fin 0)
   \<and> entries_of adjustment_reward =
        [\<lparr>l_RewardID = 2, l_UserID = ''USR001'',
          l_EntryType = ''CREDIT'', l_AccountType = ''STOCK_ASSET'',
          l_Amount = Fin 500, l_Currency = ''INR'',
          l_Description = Some (StockAdjustmentDesc ''AAPL'' (Fin (- 5)) (Fin 100)),
          l_ReferenceID = Some ''EVT-ADJ-001''\<rparr>,
         \<lparr>l_RewardID = 2, l_UserID = ''USR001'',
          l_EntryType = ''DEBIT'', l_AccountType = ''ADJUSTMENT_EXPENSE'',
          l_Amount = Fin 500, l_Currency = ''INR'',
          l_Description = Some (AdjustmentDesc ''EVT-ADJ-001''),
          l_ReferenceID = Some ''EVT-ADJ-001''\<rparr>]"
proof -
  have q: "flt (r_Quantity adjustment_reward) (Fin 0)" by (simp add: adjustment_reward_eval)
  from C6_negative_quantity_entries[of adjustment_reward] q
  show ?thesis by (simp add: adjustment_reward_eval)
qed




text \<open>
  C9. roundToTwoDecimals is not idempotent on every finite binary64. From \<open>2\<^sup>4\<^sup>5\<close> on,
  neighbouring binary64 values are 1/128 apart, more than half a hundredth: the binary64
  value \<open>2\<^sup>4\<^sup>5 + 1/64\<close> (35184372088832.015625) is rounded to 35184372088832.0234375, and
  rounding that again gives 35184372088832.03125, which Go's \<^verbatim>\<open>==\<close> tells apart.
\<close>

theorem C9_counterexample:
  "is_float64 (Fin (2 ^ 45 + 1 / 64))
   \<and> roundToTwoDecimals (Fin (2 ^ 45 + 1 / 64)) = Fin (4503599627370499 / 128)
   \<and> roundToTwoDecimals (roundToTwoDecimals (Fin (2 ^ 45 + 1 / 64))) =
       Fin (1125899906842625 / 32)
   \<and> \<not> feq (roundToTwoDecimals (roundToTwoDecimals (Fin (2 ^ 45 + 1 / 64))))
            (roundToTwoDecimals (Fin (2 ^ 45 + 1 / 64)))"
  by (simp add: is_float64_def roundToTwoDecimals_def rne_certs round_half_away_def
      floor_rat_numeral)

text \<open>
  C9, as it holds. roundToTwoDecimals is idempotent on every finite value of magnitude
  below \<open>2\<^sup>4\<^sup>5\<close> (about 3.5e13, which covers every amount a DECIMAL(15,2) column of the
  schema can hold).
\<close>

theorem C9_round2_idempotent_in_range:
  assumes "\<bar>x\<bar> < 2 ^ 45"
  shows "roundToTwoDecimals (roundToTwoDecimals (Fin x)) = roundToTwoDecimals (Fin x)"
  using assms by (rule roundToTwoDecimals_idempotent)

theorem C9_witness:
  "\<bar>1131529406376837 / 1125899906842624 :: rat\<bar> < 2 ^ 45
   \<and> is_float64 (Fin (1131529406376837 / 1125899906842624))
   \<and> roundToTwoDecimals (roundToTwoDecimals (Fin (1131529406376837 / 1125899906842624))) =
       roundToTwoDecimals (Fin (1131529406376837 / 1125899906842624))
   \<and> roundToTwoDecimals (Fin (1131529406376837 / 1125899906842624)) = Fin 1"
proof -
  have a: "\<bar>1131529406376837 / 1125899906842624 :: rat\<bar> < 2 ^ 45" by simp
  have b: "roundToTwoDecimals (Fin (1131529406376837 / 1125899906842624)) = Fin 1"
    by (simp add: roundToTwoDecimals_def rne_certs round_half_away_def floor_rat_numeral)
  have c: "is_float64 (Fin (1131529406376837 / 1125899906842624))"
    by (simp add: is_float64_def rne_certs)
  from C9_round2_idempotent_in_range[OF a] a b c show ?thesis by simp
qed

end
